theory Spec2Isabelle
  imports Complex_Main "HOL-Library.Sublist"
begin

section \<open>Python built-ins used by the dialogue core\<close>

text \<open>
  The program is \<^verbatim>\<open>src/geohackathon/app.py\<close>. Its pure part (the functions
  \<^verbatim>\<open>format_nodal_details\<close>, \<^verbatim>\<open>generate_optimization_advice\<close>,
  \<^verbatim>\<open>identify_limitations\<close> and \<^verbatim>\<open>generate_response\<close>) is embedded below.

  Modelling conventions.
  \<^item> A Python \<^verbatim>\<open>str\<close> is a \<^typ>\<open>string\<close> holding its UTF-8 bytes; the emoji and the
    superscript three of the templates are written as the bytes of their encodings.
    Keyword search for the ASCII keywords of the program is the same on bytes as on code
    points.
  \<^item> \<^verbatim>\<open>str.lower\<close> and \<^verbatim>\<open>str.title\<close> act on the ASCII letters; the case mappings
    of letters outside ASCII are not modelled (such bytes are left as they are).
  \<^item> A Python number is a \<^typ>\<open>rat\<close>: comparisons, subtraction, division and
    multiplication are exact, the rounding of binary floating point, NaN and the
    infinities are not modelled.
  \<^item> \<^verbatim>\<open>str(x)\<close> of a number (what an f-string field \<^verbatim>\<open>{x}\<close> prints) is a built-in
    whose shortest-representation algorithm is outside the repository; it is the
    parameter \<open>num_str\<close> of every function that prints a number.
  \<^item> A raised exception is the \<open>Inl\<close> of a result \<open>py_error + 'a\<close>.
\<close>

datatype py_error = ZeroDivisionError

text \<open>\<^verbatim>\<open>a / b\<close>: true division raises on a zero divisor.\<close>

definition py_truediv :: "rat \<Rightarrow> rat \<Rightarrow> py_error + rat" where
  "py_truediv a b = (if b = 0 then Inl ZeroDivisionError else Inr (a / b))"

definition is_upper :: "char \<Rightarrow> bool" where
  "is_upper c = (65 \<le> (of_char c :: nat) \<and> (of_char c :: nat) \<le> 90)"

definition is_lower :: "char \<Rightarrow> bool" where
  "is_lower c = (97 \<le> (of_char c :: nat) \<and> (of_char c :: nat) \<le> 122)"

definition to_lower :: "char \<Rightarrow> char" where
  "to_lower c = (if is_upper c then char_of ((of_char c :: nat) + 32) else c)"

definition to_upper :: "char \<Rightarrow> char" where
  "to_upper c = (if is_lower c then char_of ((of_char c :: nat) - 32) else c)"

text \<open>\<^verbatim>\<open>s.lower()\<close>\<close>

definition str_lower :: "string \<Rightarrow> string" where
  "str_lower s = map to_lower s"

text \<open>
  \<^verbatim>\<open>s.title()\<close>: a cased character is upper-cased when the character before it is
  not cased, and lower-cased otherwise; \<open>prev\<close> tells whether the previous character
  was cased.
\<close>

fun title_from :: "bool \<Rightarrow> string \<Rightarrow> string" where
  "title_from prev [] = []"
| "title_from prev (c # cs) =
     (if is_upper c \<or> is_lower c
      then (if prev then to_lower c else to_upper c) # title_from True cs
      else c # title_from False cs)"

definition str_title :: "string \<Rightarrow> string" where
  "str_title s = title_from False s"

text \<open>\<^verbatim>\<open>s.replace(old, new)\<close> for one-character \<open>old\<close> and \<open>new\<close>.\<close>

definition replace_char :: "char \<Rightarrow> char \<Rightarrow> string \<Rightarrow> string" where
  "replace_char old new s = map (\<lambda>c. if c = old then new else c) s"

text \<open>\<^verbatim>\<open>word in s\<close>: \<open>word\<close> occurs in \<open>s\<close> as a contiguous substring.\<close>

fun str_contains :: "string \<Rightarrow> string \<Rightarrow> bool" where
  "str_contains [] word = (word = [])"
| "str_contains (c # cs) word = (prefix word (c # cs) \<or> str_contains cs word)"

text \<open>\<^verbatim>\<open>any(word in s for word in words)\<close>\<close>

definition any_word_in :: "string list \<Rightarrow> string \<Rightarrow> bool" where
  "any_word_in words s = list_ex (\<lambda>word. str_contains s word) words"

subsection \<open>Decimal output\<close>

definition digit_char :: "nat \<Rightarrow> char" where
  "digit_char d = char_of (48 + d)"

fun show_nat :: "nat \<Rightarrow> string" where
  "show_nat n = (if n < 10 then [digit_char n] else show_nat (n div 10) @ [digit_char (n mod 10)])"

declare show_nat.simps [simp del]

text \<open>Rounding to the nearest integer, a tie going to the even neighbour.\<close>

definition round_half_even :: "rat \<Rightarrow> int" where
  "round_half_even q =
     (let f = \<lfloor>q\<rfloor>; d = q - of_int f
      in if d < 1 / 2 then f else if 1 / 2 < d then f + 1 else if even f then f else f + 1)"

text \<open>
  \<^verbatim>\<open>f"{x:.1f}"\<close>: the sign, then the magnitude rounded to one decimal place, always
  with one digit after the point.
\<close>

definition fmt_1f :: "rat \<Rightarrow> string" where
  "fmt_1f x =
     (let n = nat (round_half_even (\<bar>x\<bar> * 10))
      in (if x < 0 then ''-'' else '''') @ show_nat (n div 10) @ ''.'' @ show_nat (n mod 10))"

section \<open>The report\<close>

text \<open>
  A value of \<^verbatim>\<open>extracted_parameters\<close>: \<^verbatim>\<open>None\<close>, a string or a number.
\<close>

datatype pyval = PyNone | PyStr string | PyNum rat

text \<open>Python truthiness, as tested by \<^verbatim>\<open>if value:\<close>.\<close>

fun truthy :: "pyval \<Rightarrow> bool" where
  "truthy PyNone = False"
| "truthy (PyStr s) = (s \<noteq> [])"
| "truthy (PyNum x) = (x \<noteq> 0)"

text \<open>\<^verbatim>\<open>str(value)\<close>, what \<^verbatim>\<open>{value}\<close> prints.\<close>

fun py_str :: "(rat \<Rightarrow> string) \<Rightarrow> pyval \<Rightarrow> string" where
  "py_str num_str PyNone = ''None''"
| "py_str num_str (PyStr s) = s"
| "py_str num_str (PyNum x) = num_str x"

record operating_point =
  flow_rate_m3_h :: rat
  wellhead_pressure_bar :: rat
  bottomhole_pressure_bar :: rat
  reservoir_pressure_bar :: rat

record pressure_analysis =
  hydrostatic_pressure_drop_bar :: rat
  friction_pressure_drop_bar :: rat
  total_pressure_drop_bar :: rat

record flow_characteristics =
  reynolds_number :: rat
  flow_regime :: string
  friction_factor :: rat
  velocity_m_s :: rat

record productivity =
  productivity_index_m3h_bar :: rat
  max_flow_rate_m3_h :: rat
  current_utilization_pct :: rat

record nodal_results =
  operating_point :: operating_point
  pressure_analysis :: pressure_analysis
  flow_characteristics :: flow_characteristics
  productivity :: productivity

text \<open>
  \<^verbatim>\<open>nodal_analysis_results\<close>: the dictionary with \<^verbatim>\<open>status == "success"\<close> carries
  \<^verbatim>\<open>results\<close>, any other carries \<^verbatim>\<open>message\<close>.
\<close>

datatype nodal_analysis = Success nodal_results | Failure string

text \<open>
  The report dictionary. \<^verbatim>\<open>extracted_parameters\<close> is a dictionary read in insertion
  order, hence an association list.
\<close>

record report =
  extracted_parameters :: "(string \<times> pyval) list"
  nodal_analysis_results :: nodal_analysis
  summary :: string

section \<open>Formatters\<close>

text \<open>\<^verbatim>\<open>format_nodal_details(results)\<close>\<close>

definition format_nodal_details :: "(rat \<Rightarrow> string) \<Rightarrow> nodal_results \<Rightarrow> string" where
  "format_nodal_details num_str results =
     (let op = operating_point results;
          pa = pressure_analysis results;
          fc = flow_characteristics results;
          prod = productivity results
      in ''### '' @ [CHR 0xE2, CHR 0x9A, CHR 0x99, CHR 0xEF, CHR 0xB8, CHR 0x8F] @ '' Detailed Nodal Analysis\<newline>\<newline>''
         @ ''**Operating Point:**\<newline>''
         @ ''- Flow Rate: '' @ num_str (flow_rate_m3_h op) @ '' m'' @ [CHR 0xC2, CHR 0xB3] @ ''/h\<newline>''
         @ ''- Wellhead Pressure: '' @ num_str (wellhead_pressure_bar op) @ '' bar\<newline>''
         @ ''- Bottomhole Pressure: '' @ num_str (bottomhole_pressure_bar op) @ '' bar\<newline>''
         @ ''- Reservoir Pressure: '' @ num_str (reservoir_pressure_bar op) @ '' bar\<newline>\<newline>''
         @ ''**Pressure Analysis:**\<newline>''
         @ ''- Hydrostatic Drop: '' @ num_str (hydrostatic_pressure_drop_bar pa) @ '' bar\<newline>''
         @ ''- Friction Drop: '' @ num_str (friction_pressure_drop_bar pa) @ '' bar\<newline>''
         @ ''- Total Drop: '' @ num_str (total_pressure_drop_bar pa) @ '' bar\<newline>\<newline>''
         @ ''**Flow Characteristics:**\<newline>''
         @ ''- Reynolds Number: '' @ num_str (reynolds_number fc) @ ''\<newline>''
         @ ''- Flow Regime: '' @ flow_regime fc @ ''\<newline>''
         @ ''- Friction Factor: '' @ num_str (friction_factor fc) @ ''\<newline>''
         @ ''- Velocity: '' @ num_str (velocity_m_s fc) @ '' m/s\<newline>\<newline>''
         @ ''**Productivity:**\<newline>''
         @ ''- Productivity Index: '' @ num_str (productivity_index_m3h_bar prod) @ '' m'' @ [CHR 0xC2, CHR 0xB3] @ ''/h/bar\<newline>''
         @ ''- Maximum Flow: '' @ num_str (max_flow_rate_m3_h prod) @ '' m'' @ [CHR 0xC2, CHR 0xB3] @ ''/h\<newline>''
         @ ''- Current Utilization: '' @ num_str (current_utilization_pct prod) @ ''%\<newline>'')"

text \<open>
  \<^verbatim>\<open>generate_optimization_advice(results)\<close>. The message is a common head followed by
  the block of the first branch of the \<^verbatim>\<open>if/elif/else\<close> that applies; the head and
  the three blocks are named.
\<close>

definition advice_head :: "(rat \<Rightarrow> string) \<Rightarrow> rat \<Rightarrow> string" where
  "advice_head num_str utilization =
     ''### '' @ [CHR 0xF0, CHR 0x9F, CHR 0x92, CHR 0xA1] @ '' Production Optimization Recommendations\<newline>\<newline>''
     @ ''**Current Status:** Operating at '' @ num_str utilization @ ''% of maximum potential\<newline>\<newline>''"

definition high_potential_block :: "rat \<Rightarrow> string" where
  "high_potential_block gain =
     [CHR 0xF0, CHR 0x9F, CHR 0x9A, CHR 0x80] @ '' **High optimization potential!**\<newline>\<newline>''
     @ ''**Recommendations:**\<newline>''
     @ ''1. **Increase ESP frequency** - Could boost production significantly\<newline>''
     @ ''2. **Reduce wellhead backpressure** - Check surface facilities\<newline>''
     @ ''3. **Review choke settings** - May be restricting flow\<newline>''
     @ ''4. **Potential gain:** Up to '' @ fmt_1f gain @ '' m'' @ [CHR 0xC2, CHR 0xB3] @ ''/h\<newline>''"

definition moderate_potential_block :: string where
  "moderate_potential_block =
     [CHR 0xF0, CHR 0x9F, CHR 0x93, CHR 0x88] @ '' **Moderate optimization potential**\<newline>\<newline>''
     @ ''**Recommendations:**\<newline>''
     @ ''1. **Fine-tune ESP settings** - Gradual frequency increase\<newline>''
     @ ''2. **Monitor reservoir pressure** - Ensure adequate drive\<newline>''
     @ ''3. **Optimize artificial lift** - Balance power vs production\<newline>''"

definition efficient_block :: string where
  "efficient_block =
     [CHR 0xE2, CHR 0x9C, CHR 0x85] @ '' **Well is operating efficiently!**\<newline>\<newline>''
     @ ''Current utilization is good. Focus on:\<newline>''
     @ ''1. **Maintain current settings** - Don't over-produce\<newline>''
     @ ''2. **Monitor for decline** - Track performance over time\<newline>''
     @ ''3. **Prevent equipment damage** - Operating near capacity\<newline>''"

definition generate_optimization_advice :: "(rat \<Rightarrow> string) \<Rightarrow> nodal_results \<Rightarrow> string" where
  "generate_optimization_advice num_str results =
     (let prod = productivity results;
          utilization = current_utilization_pct prod;
          msg = advice_head num_str utilization
      in if utilization < 50 then
           msg @ high_potential_block
                   (max_flow_rate_m3_h prod - flow_rate_m3_h (operating_point results))
         else if utilization < 75 then msg @ moderate_potential_block
         else msg @ efficient_block)"

text \<open>
  \<^verbatim>\<open>identify_limitations(results)\<close>. The two local variables \<^verbatim>\<open>hydrostatic_pct\<close> and
  \<^verbatim>\<open>friction_pct\<close> are computed by \<open>limitation_pcts\<close> (lines 133 to 139), the message
  is built from them by \<open>limitations_msg\<close> (lines 131 and 141 to 157).
\<close>

definition limitation_pcts :: "pressure_analysis \<Rightarrow> py_error + rat \<times> rat" where
  "limitation_pcts pa =
     (let total_drop = total_pressure_drop_bar pa
      in if total_drop = 0 then Inr (0, 0)
         else (case py_truediv (hydrostatic_pressure_drop_bar pa) total_drop of
                 Inl e \<Rightarrow> Inl e
               | Inr h \<Rightarrow>
                   (case py_truediv (friction_pressure_drop_bar pa) total_drop of
                      Inl e \<Rightarrow> Inl e
                    | Inr f \<Rightarrow> Inr (h * 100, f * 100))))"

definition high_friction_block :: string where
  "high_friction_block =
     [CHR 0xE2, CHR 0x9A, CHR 0xA0, CHR 0xEF, CHR 0xB8, CHR 0x8F] @ '' **High friction losses** - Consider:\<newline>''
     @ ''- Larger tubing diameter\<newline>''
     @ ''- Scale/wax treatment\<newline>''
     @ ''- Flow regime optimization\<newline>\<newline>''"

definition limitations_msg ::
  "(rat \<Rightarrow> string) \<Rightarrow> pressure_analysis \<Rightarrow> flow_characteristics \<Rightarrow> rat \<Rightarrow> rat \<Rightarrow> string" where
  "limitations_msg num_str pa fc hydrostatic_pct friction_pct =
     ''### '' @ [CHR 0xF0, CHR 0x9F, CHR 0x94, CHR 0x8D] @ '' Production Limitation Analysis\<newline>\<newline>''
     @ ''**Pressure Drop Breakdown:**\<newline>''
     @ ''- Hydrostatic: '' @ fmt_1f hydrostatic_pct @ ''% ('' @ num_str (hydrostatic_pressure_drop_bar pa) @ '' bar)\<newline>''
     @ ''- Friction: '' @ fmt_1f friction_pct @ ''% ('' @ num_str (friction_pressure_drop_bar pa) @ '' bar)\<newline>\<newline>''
     @ ''**Main Limiting Factors:**\<newline>\<newline>''
     @ (if 10 < friction_pct then high_friction_block else [])
     @ [CHR 0xF0, CHR 0x9F, CHR 0x94, CHR 0xB9] @ '' **Hydrostatic head** - Natural limitation due to well depth\<newline>''
     @ [CHR 0xF0, CHR 0x9F, CHR 0x94, CHR 0xB9] @ '' **Wellhead pressure** - Surface equipment backpressure\<newline>''
     @ [CHR 0xF0, CHR 0x9F, CHR 0x94, CHR 0xB9] @ '' **Flow regime** - Currently '' @ str_lower (flow_regime fc) @ ''\<newline>\<newline>''
     @ ''*The friction losses indicate tubing efficiency. Lower is better!*''"

definition identify_limitations :: "(rat \<Rightarrow> string) \<Rightarrow> nodal_results \<Rightarrow> py_error + string" where
  "identify_limitations num_str results =
     (let pa = pressure_analysis results;
          fc = flow_characteristics results
      in case limitation_pcts pa of
           Inl e \<Rightarrow> Inl e
         | Inr (hydrostatic_pct, friction_pct) \<Rightarrow>
             Inr (limitations_msg num_str pa fc hydrostatic_pct friction_pct))"

section \<open>The response generator\<close>

text \<open>The three static texts of the branch without a report (lines 169 to 198).\<close>

definition getting_started_text :: string where
  "getting_started_text =
     ''To get started:\<newline>            \<newline>1. Click the **Browse files** button in the sidebar  \<newline>2. Select a PDF well completion report  \<newline>3. Click **'' @ [CHR 0xF0, CHR 0x9F, CHR 0x9A, CHR 0x80] @ '' Analyze Document**  \<newline>4. Wait for the analysis to complete  \<newline>5. Ask me questions about the results!\<newline>\<newline>I support standard well completion reports with tables and technical data.''"

definition extraction_text :: string where
  "extraction_text =
     ''I can extract many parameters from well documents:\<newline>\<newline>**Basic Info:** Well name, operation type, dates, duration  \<newline>**Depths:** Packer, PBR, pump intake, total depth  \<newline>**Equipment:** Tubing size, ESP details, completion config  \<newline>**Reservoir:** Temperature, fluid type, pressure  \<newline>**Production:** Flow rates, pressures, fluid properties  \<newline>**Safety:** HSE incidents, operational notes  \<newline>\<newline>Upload a document to see what I can extract! '' @ [CHR 0xF0, CHR 0x9F, CHR 0x93, CHR 0x84]"

definition nodal_analysis_text :: string where
  "nodal_analysis_text =
     ''**Nodal Analysis** determines well production capacity by analyzing pressure relationships.\<newline>\<newline>I calculate:  \<newline>- **Pressure Distribution:** From reservoir to wellhead  \<newline>- **Flow Characteristics:** Reynolds number, flow regime, friction  \<newline>- **Productivity:** Current vs maximum potential  \<newline>- **Bottlenecks:** What's limiting production  \<newline>\<newline>Upload a document and I'll perform the analysis automatically! '' @ [CHR 0xE2, CHR 0x9A, CHR 0x99, CHR 0xEF, CHR 0xB8, CHR 0x8F]"

text \<open>
  The two \<^verbatim>\<open>else\<close> branches (lines 200 to 203 and 238 to 247) are f-strings: a
  fixed opening, the field \<^verbatim>\<open>{user_input}\<close>, and a fixed rest.
\<close>

definition asking_prefix :: string where
  "asking_prefix = ''I understand you're asking: *\"''"

definition upload_first_suffix :: string where
  "upload_first_suffix =
     ''\"*\<newline>\<newline>Please upload a PDF document first so I can help you analyze it! Use the sidebar to upload. '' @ [CHR 0xF0, CHR 0x9F, CHR 0x93, CHR 0xA4]"

definition menu_suffix :: string where
  "menu_suffix =
     ''\"*\<newline>\<newline>I can help you with:\<newline>- Show extracted parameters\<newline>- Explain nodal analysis results\<newline>- Provide optimization suggestions\<newline>- Identify production limitations\<newline>- Export the full report\<newline>\<newline>Try asking: **\"What are the nodal results?\"** or **\"How can we optimize production?\"** '' @ [CHR 0xF0, CHR 0x9F, CHR 0x92, CHR 0xA1]"

definition params_header :: string where
  "params_header = ''### '' @ [CHR 0xF0, CHR 0x9F, CHR 0x93, CHR 0x8B] @ '' Extracted Parameters\<newline>\<newline>''"

text \<open>The line that one iteration of the loop of lines 209 to 211 appends.\<close>

definition param_bullet :: "(rat \<Rightarrow> string) \<Rightarrow> string \<Rightarrow> pyval \<Rightarrow> string" where
  "param_bullet num_str key val =
     ''- **'' @ str_title (replace_char (CHR ''_'') (CHR '' '') key) @ '':** '' @ py_str num_str val @ ''\<newline>''"

text \<open>
  \<^verbatim>\<open>for key, value in params.items(): if value: msg += ...\<close>, the message being the
  accumulator.
\<close>

fun params_loop :: "(rat \<Rightarrow> string) \<Rightarrow> string \<Rightarrow> (string \<times> pyval) list \<Rightarrow> string" where
  "params_loop num_str msg [] = msg"
| "params_loop num_str msg ((key, val) # rest) =
     params_loop num_str (if truthy val then msg @ param_bullet num_str key val else msg) rest"

definition incomplete_prefix :: string where
  "incomplete_prefix =
     [CHR 0xE2, CHR 0x9A, CHR 0xA0, CHR 0xEF, CHR 0xB8, CHR 0x8F] @ '' Nodal analysis was incomplete: ''"

definition summary_header :: string where
  "summary_header = ''### '' @ [CHR 0xF0, CHR 0x9F, CHR 0x93, CHR 0x9D] @ '' Document Summary\<newline>\<newline>''"

definition need_success_optimization :: string where
  "need_success_optimization =
     ''I need successful nodal analysis results to provide optimization advice.''"

definition need_success_limitations :: string where
  "need_success_limitations =
     ''I need successful nodal analysis results to identify limitations.''"

text \<open>
  \<^verbatim>\<open>generate_response(user_input, report)\<close>. The argument \<open>report\<close> is \<^verbatim>\<open>None\<close>
  (\<open>None\<close>) or a report dictionary, which has its three keys and is therefore
  truthy (\<open>Some\<close>).
\<close>

definition generate_response ::
  "(rat \<Rightarrow> string) \<Rightarrow> string \<Rightarrow> report option \<Rightarrow> py_error + string" where
  "generate_response num_str user_input report =
     (let lower_input = str_lower user_input
      in case report of
           None \<Rightarrow>
             (if any_word_in [''upload'', ''how'', ''start''] lower_input then
                Inr getting_started_text
              else if any_word_in [''extract'', ''parameter''] lower_input then
                Inr extraction_text
              else if any_word_in [''nodal'', ''analysis'', ''calculate''] lower_input then
                Inr nodal_analysis_text
              else Inr (asking_prefix @ user_input @ upload_first_suffix))
         | Some rep \<Rightarrow>
             (if any_word_in [''parameter'', ''extract'', ''data''] lower_input then
                Inr (params_loop num_str params_header (extracted_parameters rep))
              else if any_word_in [''nodal'', ''pressure'', ''flow''] lower_input then
                (case nodal_analysis_results rep of
                   Success results \<Rightarrow> Inr (format_nodal_details num_str results)
                 | Failure message \<Rightarrow> Inr (incomplete_prefix @ message))
              else if any_word_in [''summary'', ''overview''] lower_input then
                Inr (summary_header @ summary rep)
              else if any_word_in [''increase'', ''optimize'', ''improve''] lower_input then
                (case nodal_analysis_results rep of
                   Success results \<Rightarrow> Inr (generate_optimization_advice num_str results)
                 | Failure message \<Rightarrow> Inr need_success_optimization)
              else if any_word_in [''limit'', ''bottleneck'', ''problem''] lower_input then
                (case nodal_analysis_results rep of
                   Success results \<Rightarrow> identify_limitations num_str results
                 | Failure message \<Rightarrow> Inr need_success_limitations)
              else Inr (asking_prefix @ user_input @ menu_suffix)))"

section \<open>The chat turn\<close>




section \<open>The classifier and the generator of the specification\<close>

text \<open>
  The specification splits \<^verbatim>\<open>generate_response\<close> into a classifier
  \<open>classify(utterance, reportPresent)\<close>, an ordered list of keyword sets and intents
  tried in sequence, and a generator that dispatches on the intent. Both are defined
  here from the specification's words, and compared with the function of the source
  below.
\<close>

datatype intent =
    HelpGettingStarted | ExplainExtraction | ExplainNodalAnalysis | NeedsUpload
  | ShowParameters | ShowNodalDetails | ShowSummary | OptimizationAdvice
  | LimitationAnalysis | FallbackMenu

definition no_report_rules :: "(string list \<times> intent) list" where
  "no_report_rules =
     [([''upload'', ''how'', ''start''], HelpGettingStarted),
      ([''extract'', ''parameter''], ExplainExtraction),
      ([''nodal'', ''analysis'', ''calculate''], ExplainNodalAnalysis)]"

definition loaded_rules :: "(string list \<times> intent) list" where
  "loaded_rules =
     [([''parameter'', ''extract'', ''data''], ShowParameters),
      ([''nodal'', ''pressure'', ''flow''], ShowNodalDetails),
      ([''summary'', ''overview''], ShowSummary),
      ([''increase'', ''optimize'', ''improve''], OptimizationAdvice),
      ([''limit'', ''bottleneck'', ''problem''], LimitationAnalysis)]"

fun first_match :: "(string list \<times> intent) list \<Rightarrow> intent \<Rightarrow> string \<Rightarrow> intent" where
  "first_match [] dflt s = dflt"
| "first_match ((words, i) # rules) dflt s =
     (if any_word_in words s then i else first_match rules dflt s)"

definition classify :: "string \<Rightarrow> bool \<Rightarrow> intent" where
  "classify utterance report_present =
     (if report_present then first_match loaded_rules FallbackMenu (str_lower utterance)
      else first_match no_report_rules NeedsUpload (str_lower utterance))"

text \<open>
  The response of each intent. The intents of the branch without a report need no
  report; those of the other branch read it. (The utterance is an argument because the
  two fall-through responses quote it.)
\<close>

fun respond_no_report :: "intent \<Rightarrow> string \<Rightarrow> string" where
  "respond_no_report HelpGettingStarted u = getting_started_text"
| "respond_no_report ExplainExtraction u = extraction_text"
| "respond_no_report ExplainNodalAnalysis u = nodal_analysis_text"
| "respond_no_report _ u = asking_prefix @ u @ upload_first_suffix"

fun respond_loaded :: "(rat \<Rightarrow> string) \<Rightarrow> intent \<Rightarrow> string \<Rightarrow> report \<Rightarrow> py_error + string" where
  "respond_loaded num_str ShowParameters u rep =
     Inr (params_loop num_str params_header (extracted_parameters rep))"
| "respond_loaded num_str ShowNodalDetails u rep =
     (case nodal_analysis_results rep of
        Success results \<Rightarrow> Inr (format_nodal_details num_str results)
      | Failure message \<Rightarrow> Inr (incomplete_prefix @ message))"
| "respond_loaded num_str ShowSummary u rep = Inr (summary_header @ summary rep)"
| "respond_loaded num_str OptimizationAdvice u rep =
     (case nodal_analysis_results rep of
        Success results \<Rightarrow> Inr (generate_optimization_advice num_str results)
      | Failure message \<Rightarrow> Inr need_success_optimization)"
| "respond_loaded num_str LimitationAnalysis u rep =
     (case nodal_analysis_results rep of
        Success results \<Rightarrow> identify_limitations num_str results
      | Failure message \<Rightarrow> Inr need_success_limitations)"
| "respond_loaded num_str _ u rep = Inr (asking_prefix @ u @ menu_suffix)"

section \<open>Auxiliary facts\<close>

lemma str_contains_iff: "str_contains s w \<longleftrightarrow> (\<exists>p q. s = p @ w @ q)"
proof (induction s)
  case Nil
  then show ?case by auto
next
  case (Cons c cs)
  show ?case
  proof
    assume "str_contains (c # cs) w"
    then consider "prefix w (c # cs)" | "str_contains cs w" by auto
    then show "\<exists>p q. c # cs = p @ w @ q"
    proof cases
      case 1
      then obtain q where "c # cs = w @ q" by (auto simp: prefix_def)
      then have "c # cs = [] @ w @ q" by simp
      then show ?thesis by blast
    next
      case 2
      with Cons obtain p q where "cs = p @ w @ q" by auto
      then have "c # cs = (c # p) @ w @ q" by simp
      then show ?thesis by blast
    qed
  next
    assume "\<exists>p q. c # cs = p @ w @ q"
    then obtain p q where pq: "c # cs = p @ w @ q" by auto
    show "str_contains (c # cs) w"
    proof (cases p)
      case Nil
      with pq have "prefix w (c # cs)" by (simp add: prefix_def)
      then show ?thesis by simp
    next
      case (Cons a p')
      with pq have "cs = p' @ w @ q" by simp
      with Cons.IH have "str_contains cs w" by blast
      then show ?thesis by simp
    qed
  qed
qed

lemma any_word_in_iff:
  "any_word_in words s \<longleftrightarrow> (\<exists>w p q. w \<in> set words \<and> s = p @ w @ q)"
  by (auto simp: any_word_in_def list_ex_iff str_contains_iff)

lemma generate_response_None:
  "generate_response num_str u None = Inr (respond_no_report (classify u False) u)"
  by (simp add: generate_response_def classify_def no_report_rules_def Let_def)

lemma generate_response_Some:
  "generate_response num_str u (Some rep) = respond_loaded num_str (classify u True) u rep"
  by (simp add: generate_response_def classify_def loaded_rules_def Let_def)

lemma first_match_least:
  "i < length rules \<Longrightarrow> any_word_in (fst (rules ! i)) s \<Longrightarrow>
   (\<And>j. j < i \<Longrightarrow> \<not> any_word_in (fst (rules ! j)) s) \<Longrightarrow>
   first_match rules dflt s = snd (rules ! i)"
proof (induction rules arbitrary: i)
  case Nil
  then show ?case by simp
next
  case (Cons r rules)
  obtain ws k where r: "r = (ws, k)" by (cases r)
  show ?case
  proof (cases i)
    case 0
    with Cons.prems r show ?thesis by simp
  next
    case (Suc i')
    from Cons.prems(3)[of 0] Suc r have no: "\<not> any_word_in ws s" by simp
    have "first_match rules dflt s = snd (rules ! i')"
    proof (rule Cons.IH)
      show "i' < length rules" using Cons.prems(1) Suc by simp
      show "any_word_in (fst (rules ! i')) s" using Cons.prems(2) Suc by simp
      show "\<not> any_word_in (fst (rules ! j)) s" if "j < i'" for j
        using Cons.prems(3)[of "Suc j"] that Suc by simp
    qed
    with no r Suc show ?thesis by simp
  qed
qed


section \<open>Properties of the dialogue core\<close>

text \<open>
  C4. Without a report, an utterance whose lower-cased text contains \<open>upload\<close>,
  \<open>how\<close> or \<open>start\<close> anywhere (as a substring, between any \<open>p\<close> and \<open>q\<close>)
  is classified as \<open>HelpGettingStarted\<close> and answered with the getting-started text,
  whatever other keywords it contains: this check comes first.
\<close>

theorem help_getting_started_first:
  assumes "w \<in> {''upload'', ''how'', ''start''}" and "str_lower u = p @ w @ q"
  shows "classify u False = HelpGettingStarted
         \<and> generate_response num_str u None = Inr getting_started_text"
proof -
  from assms have "any_word_in [''upload'', ''how'', ''start''] (str_lower u)"
    unfolding any_word_in_iff by auto
  then have c: "classify u False = HelpGettingStarted"
    by (simp add: classify_def no_report_rules_def)
  then show ?thesis by (simp add: generate_response_None)
qed

theorem help_getting_started_first_witness:
  "''how'' \<in> {''upload'', ''how'', ''start''}
   \<and> str_lower ''Extract nodal data? HOW?'' = ''extract nodal data? '' @ ''how'' @ ''?''
   \<and> classify ''Extract nodal data? HOW?'' False = HelpGettingStarted
   \<and> generate_response fmt_1f ''Extract nodal data? HOW?'' None = Inr getting_started_text"
proof -
  have h1: "''how'' \<in> {''upload'', ''how'', ''start''}" by simp
  have h2: "str_lower ''Extract nodal data? HOW?'' = ''extract nodal data? '' @ ''how'' @ ''?''"
    by code_simp
  show ?thesis
    using h1 h2 help_getting_started_first [OF h1 h2, of fmt_1f] by blast
qed

text \<open>
  C1, as stated, fails: the utterance \<open>nodal summary data\<close> contains both \<open>nodal\<close>
  and \<open>summary\<close>, but also \<open>data\<close>, a keyword of the parameters set, which is
  tried first; it is answered with the extracted parameters, not the nodal details.
\<close>

theorem nodal_and_summary_counterexample:
  "str_contains (str_lower ''nodal summary data'') ''nodal''
   \<and> str_contains (str_lower ''nodal summary data'') ''summary''
   \<and> classify ''nodal summary data'' True = ShowParameters
   \<and> generate_response fmt_1f ''nodal summary data''
        (Some \<lparr>extracted_parameters = [], nodal_analysis_results = Failure ''no data'',
               summary = ''text''\<rparr>)
      = Inr params_header
   \<and> Inr params_header \<noteq>
       respond_loaded fmt_1f ShowNodalDetails ''nodal summary data''
        \<lparr>extracted_parameters = [], nodal_analysis_results = Failure ''no data'',
               summary = ''text''\<rparr>"
proof -
  have l: "str_lower ''nodal summary data'' = ''nodal summary data''" by code_simp
  have a: "str_contains ''nodal summary data'' ''nodal''" by code_simp
  have b: "str_contains ''nodal summary data'' ''summary''" by code_simp
  have c: "classify ''nodal summary data'' True = ShowParameters" by code_simp
  have d: "params_header \<noteq> incomplete_prefix @ ''no data''"
    by (simp add: params_header_def incomplete_prefix_def)
  show ?thesis using a b c d by (simp add: l generate_response_Some)
qed

text \<open>
  C1, amended. With a report loaded, the keyword sets are tried in the order
  parameters, nodal, summary, optimization, limitations, and the first set with a
  keyword in the lower-cased utterance decides: if set \<open>i\<close> matches and no set before
  it does, the intent is that of set \<open>i\<close> and the response is that intent's response,
  whatever later sets match. In particular an utterance containing both \<open>nodal\<close> and
  \<open>summary\<close> and none of \<open>parameter\<close>, \<open>extract\<close>, \<open>data\<close> is classified as
  \<open>ShowNodalDetails\<close>.
\<close>

theorem loaded_first_match_wins:
  "(\<forall>i < length loaded_rules.
      any_word_in (fst (loaded_rules ! i)) (str_lower u)
      \<and> (\<forall>j < i. \<not> any_word_in (fst (loaded_rules ! j)) (str_lower u))
      \<longrightarrow> classify u True = snd (loaded_rules ! i)
          \<and> generate_response num_str u (Some rep)
              = respond_loaded num_str (snd (loaded_rules ! i)) u rep)
   \<and> (str_contains (str_lower u) ''nodal'' \<and> str_contains (str_lower u) ''summary''
        \<and> \<not> any_word_in [''parameter'', ''extract'', ''data''] (str_lower u)
      \<longrightarrow> classify u True = ShowNodalDetails
          \<and> generate_response num_str u (Some rep)
              = respond_loaded num_str ShowNodalDetails u rep)"
proof (intro conjI allI impI)
  fix i
  assume i: "i < length loaded_rules"
    and m: "any_word_in (fst (loaded_rules ! i)) (str_lower u)
            \<and> (\<forall>j < i. \<not> any_word_in (fst (loaded_rules ! j)) (str_lower u))"
  then have "first_match loaded_rules FallbackMenu (str_lower u) = snd (loaded_rules ! i)"
    by (intro first_match_least) auto
  then show c: "classify u True = snd (loaded_rules ! i)" by (simp add: classify_def)
  then show "generate_response num_str u (Some rep)
              = respond_loaded num_str (snd (loaded_rules ! i)) u rep"
    by (simp add: generate_response_Some)
next
  assume h: "str_contains (str_lower u) ''nodal'' \<and> str_contains (str_lower u) ''summary''
        \<and> \<not> any_word_in [''parameter'', ''extract'', ''data''] (str_lower u)"
  then have "any_word_in [''nodal'', ''pressure'', ''flow''] (str_lower u)"
    by (simp add: any_word_in_def)
  with h show c: "classify u True = ShowNodalDetails"
    by (simp add: classify_def loaded_rules_def)
  then show "generate_response num_str u (Some rep)
              = respond_loaded num_str ShowNodalDetails u rep"
    by (simp add: generate_response_Some)
qed

theorem loaded_first_match_wins_witness:
  "classify ''Nodal SUMMARY please'' True = ShowNodalDetails
   \<and> generate_response fmt_1f ''Nodal SUMMARY please''
        (Some \<lparr>extracted_parameters = [], nodal_analysis_results = Failure ''no data'',
               summary = ''text''\<rparr>)
      = Inr (incomplete_prefix @ ''no data'')
   \<and> classify ''overview of problem'' True = ShowSummary"
proof -
  let ?u = "''Nodal SUMMARY please''"
  let ?v = "''overview of problem''"
  let ?rep = "\<lparr>extracted_parameters = [], nodal_analysis_results = Failure ''no data'',
               summary = ''text''\<rparr>"
  have l: "str_lower ?u = ''nodal summary please''" by code_simp
  have a: "str_contains (str_lower ?u) ''nodal''" unfolding l by code_simp
  have b: "str_contains (str_lower ?u) ''summary''" unfolding l by code_simp
  have c: "\<not> any_word_in [''parameter'', ''extract'', ''data''] (str_lower ?u)"
    unfolding l by code_simp
  have lv: "str_lower ?v = ?v" by code_simp
  have i: "(2::nat) < length loaded_rules" by (simp add: loaded_rules_def)
  have m: "any_word_in (fst (loaded_rules ! 2)) (str_lower ?v)"
    unfolding lv by code_simp
  have n: "\<forall>j < (2::nat). \<not> any_word_in (fst (loaded_rules ! j)) (str_lower ?v)"
  proof (intro allI impI)
    fix j :: nat assume "j < 2"
    then consider "j = 0" | "j = 1" by linarith
    then show "\<not> any_word_in (fst (loaded_rules ! j)) (str_lower ?v)"
    proof cases
      case 1 show ?thesis unfolding 1 lv by code_simp
    next
      case 2 show ?thesis unfolding 2 lv by code_simp
    qed
  qed
  have s: "snd (loaded_rules ! 2) = ShowSummary" by (simp add: loaded_rules_def)
  from loaded_first_match_wins [of ?u fmt_1f ?rep] a b c
  have 1: "classify ?u True = ShowNodalDetails"
    and 2: "generate_response fmt_1f ?u (Some ?rep) = respond_loaded fmt_1f ShowNodalDetails ?u ?rep"
    by blast+
  from loaded_first_match_wins [of ?v fmt_1f ?rep] i m n
  have 3: "classify ?v True = snd (loaded_rules ! 2)" by blast
  show ?thesis using 1 2 3 s by simp
qed

text \<open>
  C7, as stated, fails: both fall-through responses quote the utterance. \<open>hello\<close> and
  \<open>thanks\<close> are both classified \<open>NeedsUpload\<close> without a report and both
  \<open>FallbackMenu\<close> with one, and get different messages each time.
\<close>

theorem fallthrough_not_static_counterexample:
  "classify ''hello'' False = NeedsUpload
   \<and> classify ''thanks'' False = NeedsUpload
   \<and> generate_response fmt_1f ''hello'' None \<noteq> generate_response fmt_1f ''thanks'' None
   \<and> classify ''hello'' True = FallbackMenu
   \<and> classify ''thanks'' True = FallbackMenu
   \<and> generate_response fmt_1f ''hello''
        (Some \<lparr>extracted_parameters = [], nodal_analysis_results = Failure ''no data'',
               summary = ''text''\<rparr>)
      \<noteq> generate_response fmt_1f ''thanks''
        (Some \<lparr>extracted_parameters = [], nodal_analysis_results = Failure ''no data'',
               summary = ''text''\<rparr>)"
proof -
  have a: "classify ''hello'' False = NeedsUpload" by code_simp
  have b: "classify ''thanks'' False = NeedsUpload" by code_simp
  have c: "classify ''hello'' True = FallbackMenu" by code_simp
  have d: "classify ''thanks'' True = FallbackMenu" by code_simp
  show ?thesis
    by (simp add: a b c d generate_response_None generate_response_Some)
qed

text \<open>
  C7, amended. The \<open>NeedsUpload\<close> and \<open>FallbackMenu\<close> responses are a fixed opening,
  the utterance as typed, and a fixed rest. They depend on nothing else (not on the
  report, nor on how numbers print), so two utterances of the same of these two intents
  get the identical message exactly when they are the same utterance.
\<close>

theorem fallthrough_quotes_utterance:
  "(classify u False = NeedsUpload \<longrightarrow>
      generate_response num_str u None = Inr (asking_prefix @ u @ upload_first_suffix))
   \<and> (classify u True = FallbackMenu \<longrightarrow>
      generate_response num_str u (Some rep) = Inr (asking_prefix @ u @ menu_suffix))
   \<and> (classify u False = NeedsUpload \<and> classify v False = NeedsUpload \<longrightarrow>
      (generate_response num_str u None = generate_response num_str v None \<longleftrightarrow> u = v))
   \<and> (classify u True = FallbackMenu \<and> classify v True = FallbackMenu \<longrightarrow>
      (generate_response num_str u (Some rep) = generate_response num_str' v (Some rep')
         \<longleftrightarrow> u = v))"
  by (simp add: generate_response_None generate_response_Some)

theorem fallthrough_quotes_utterance_witness:
  "generate_response fmt_1f ''hello'' None = Inr (asking_prefix @ ''hello'' @ upload_first_suffix)
   \<and> generate_response fmt_1f ''hello''
        (Some \<lparr>extracted_parameters = [], nodal_analysis_results = Failure ''no data'',
               summary = ''text''\<rparr>)
      = Inr (asking_prefix @ ''hello'' @ menu_suffix)
   \<and> generate_response fmt_1f ''hello'' None \<noteq> generate_response fmt_1f ''thanks'' None
   \<and> generate_response fmt_1f ''hello''
        (Some \<lparr>extracted_parameters = [], nodal_analysis_results = Failure ''no data'',
               summary = ''text''\<rparr>)
      \<noteq> generate_response fmt_1f ''thanks''
        (Some \<lparr>extracted_parameters = [(''depth'', PyNum 7)],
               nodal_analysis_results = Failure ''other'', summary = []\<rparr>)"
proof -
  let ?r = "\<lparr>extracted_parameters = [], nodal_analysis_results = Failure ''no data'',
               summary = ''text''\<rparr>"
  let ?r' = "\<lparr>extracted_parameters = [(''depth'', PyNum 7)],
               nodal_analysis_results = Failure ''other'', summary = []\<rparr>"
  have a: "classify ''hello'' False = NeedsUpload" by code_simp
  have b: "classify ''thanks'' False = NeedsUpload" by code_simp
  have c: "classify ''hello'' True = FallbackMenu" by code_simp
  have d: "classify ''thanks'' True = FallbackMenu" by code_simp
  have e: "''hello'' \<noteq> ''thanks''" by simp
  from fallthrough_quotes_utterance [of "''hello''" fmt_1f ?r "''thanks''" fmt_1f ?r'] a b c d e
  show ?thesis by blast
qed

lemma params_loop_acc:
  "params_loop num_str msg ps =
     msg @ concat (map (\<lambda>(key, val). param_bullet num_str key val)
                       (filter (\<lambda>(key, val). truthy val) ps))"
  by (induction ps arbitrary: msg) auto

text \<open>
  C5. For a report whose nodal analysis failed: the nodal-details response is the
  warning template followed by the report's message verbatim; the optimization and
  the limitation responses are each a fixed sentence. All three are returned values
  (\<open>Inr\<close>), none is an exception.
\<close>

theorem failure_status_responses:
  assumes "nodal_analysis_results rep = Failure message"
  shows "(classify u True = ShowNodalDetails \<longrightarrow>
            generate_response num_str u (Some rep) = Inr (incomplete_prefix @ message))
         \<and> (classify u True = OptimizationAdvice \<longrightarrow>
            generate_response num_str u (Some rep) = Inr need_success_optimization)
         \<and> (classify u True = LimitationAnalysis \<longrightarrow>
            generate_response num_str u (Some rep) = Inr need_success_limitations)"
  using assms by (simp add: generate_response_Some)

theorem failure_status_responses_witness:
  "generate_response fmt_1f ''Show the FLOW'' 
      (Some \<lparr>extracted_parameters = [], nodal_analysis_results = Failure ''no depth found'',
             summary = ''text''\<rparr>)
     = Inr (incomplete_prefix @ ''no depth found'')
   \<and> generate_response fmt_1f ''can we improve?''
      (Some \<lparr>extracted_parameters = [], nodal_analysis_results = Failure ''no depth found'',
             summary = ''text''\<rparr>)
     = Inr need_success_optimization
   \<and> generate_response fmt_1f ''any bottleneck?''
      (Some \<lparr>extracted_parameters = [], nodal_analysis_results = Failure ''no depth found'',
             summary = ''text''\<rparr>)
     = Inr need_success_limitations"
proof -
  let ?rep = "\<lparr>extracted_parameters = [], nodal_analysis_results = Failure ''no depth found'',
             summary = ''text''\<rparr>"
  have f: "nodal_analysis_results ?rep = Failure ''no depth found''" by simp
  have a: "classify ''Show the FLOW'' True = ShowNodalDetails" by code_simp
  have b: "classify ''can we improve?'' True = OptimizationAdvice" by code_simp
  have c: "classify ''any bottleneck?'' True = LimitationAnalysis" by code_simp
  from failure_status_responses [OF f, of "''Show the FLOW''" fmt_1f] a
       failure_status_responses [OF f, of "''can we improve?''" fmt_1f] b
       failure_status_responses [OF f, of "''any bottleneck?''" fmt_1f] c
  show ?thesis by blast
qed

text \<open>
  C6. The parameters response is the header followed, in the order of the dictionary,
  by one bullet line for each entry whose value is truthy; entries whose value is the
  empty string, zero or \<^verbatim>\<open>None\<close> add nothing. For \<open>well_name = A-12\<close> and an empty
  \<open>duration\<close> the response is the header and the one line for the well name.
\<close>

theorem show_parameters_bullets:
  "(classify u True = ShowParameters \<longrightarrow>
      generate_response num_str u (Some rep) =
        Inr (params_header @
             concat (map (\<lambda>(key, val). param_bullet num_str key val)
                         (filter (\<lambda>(key, val). truthy val) (extracted_parameters rep)))))
   \<and> \<not> truthy (PyStr []) \<and> \<not> truthy (PyNum 0) \<and> \<not> truthy PyNone"
  by (simp add: generate_response_Some params_loop_acc)

theorem show_parameters_bullets_witness:
  "generate_response fmt_1f ''show parameters''
     (Some \<lparr>extracted_parameters = [(''well_name'', PyStr ''A-12''), (''duration'', PyStr [])],
            nodal_analysis_results = Failure ''x'', summary = ''text''\<rparr>)
   = Inr (params_header @ ''- **Well Name:** A-12\<newline>'')"
proof -
  let ?rep = "\<lparr>extracted_parameters = [(''well_name'', PyStr ''A-12''), (''duration'', PyStr [])],
            nodal_analysis_results = Failure ''x'', summary = ''text''\<rparr>"
  have a: "classify ''show parameters'' True = ShowParameters" by code_simp
  have b: "param_bullet fmt_1f ''well_name'' (PyStr ''A-12'') = ''- **Well Name:** A-12\<newline>''"
    by code_simp
  from show_parameters_bullets [of "''show parameters''" fmt_1f ?rep] a
  have "generate_response fmt_1f ''show parameters'' (Some ?rep) =
        Inr (params_header @
             concat (map (\<lambda>(key, val). param_bullet fmt_1f key val)
                         (filter (\<lambda>(key, val). truthy val) (extracted_parameters ?rep))))"
    by blast
  then show ?thesis by (simp add: b)
qed















end
